theory Spec2Isabelle
  imports
    Complex_Main
    "HOL-Library.Char_ord"
    "HOL-Library.List_Lexorder"
    "HOL-Library.Option_ord"
    "HOL-Library.Product_Lexorder"
    "HOL-Library.AList"
begin

section \<open>The Mother table\<close>

text \<open>
  \<^verbatim>\<open>app/models/mother.py\<close>: one row of the pre-aggregated dataset. Every column but
  \<^verbatim>\<open>year\<close> is nullable (\<^verbatim>\<open>Optional[...]\<close>), which is \<open>None\<close> here. The Python field
  \<^verbatim>\<open>id\<close> is \<open>mother_id\<close> (\<open>id\<close> is HOL's identity). A \<^verbatim>\<open>float\<close> is a \<open>real\<close>:
  arithmetic is exact, rounding is not modelled. A string is a list of bytes.
\<close>

record mother =
  mother_id :: "int option"
  age_group :: "string option"
  smoking_status :: "string option"
  bmi_category :: "string option"
  diabetes_pre :: "bool option"
  hypertension_pre :: "bool option"
  diabetes_subgroup :: "string option"
  hypertension_subgroup :: "string option"
  cultural_background :: "string option"
  lhd :: "string option"
  lga :: "string option"
  parity :: "int option"
  year :: int
  total_mothers :: "int option"
  percentage :: "real option"

section \<open>Python truth values and string lowering\<close>

text \<open>
  \<^verbatim>\<open>if x:\<close> on an optional value: \<^verbatim>\<open>None\<close>, the empty string, the empty list and the
  number zero are all false.
\<close>

definition truthy_str :: "string option \<Rightarrow> bool" where
  "truthy_str s = (case s of None \<Rightarrow> False | Some v \<Rightarrow> v \<noteq> [])"

definition truthy_int :: "int option \<Rightarrow> bool" where
  "truthy_int n = (case n of None \<Rightarrow> False | Some v \<Rightarrow> v \<noteq> 0)"

definition truthy_real :: "real option \<Rightarrow> bool" where
  "truthy_real x = (case x of None \<Rightarrow> False | Some v \<Rightarrow> v \<noteq> 0)"

definition truthy_list :: "'a list option \<Rightarrow> bool" where
  "truthy_list l = (case l of None \<Rightarrow> False | Some v \<Rightarrow> v \<noteq> [])"

text \<open>
  \<^verbatim>\<open>str.lower()\<close>. On the ASCII letters it adds 32; every other byte is kept. (No
  character outside ASCII lowers to one of the letters of \<^verbatim>\<open>total\<close> or
  \<^verbatim>\<open>not stated\<close>, the only strings a lowered value is compared with.)
\<close>

definition lower_char :: "char \<Rightarrow> char" where
  "lower_char c =
     (case map_of (zip ''ABCDEFGHIJKLMNOPQRSTUVWXYZ'' ''abcdefghijklmnopqrstuvwxyz'') c of
        None \<Rightarrow> c
      | Some d \<Rightarrow> d)"

definition lower :: "string \<Rightarrow> string" where
  "lower s = map lower_char s"

section \<open>The SQL the controllers build\<close>

text \<open>
  The controllers build SQLAlchemy expressions and SQLite evaluates them. A condition is
  three-valued: \<open>None\<close> is SQL's unknown, which a comparison with a \<^verbatim>\<open>NULL\<close> column gives;
  \<^verbatim>\<open>WHERE\<close> keeps the rows whose condition is true. The aggregates \<^verbatim>\<open>COUNT(col)\<close>,
  \<^verbatim>\<open>AVG(col)\<close> and \<^verbatim>\<open>SUM(col)\<close> range over the values of \<^verbatim>\<open>col\<close> that are not
  \<^verbatim>\<open>NULL\<close>; \<^verbatim>\<open>AVG\<close> and \<^verbatim>\<open>SUM\<close> of no value are \<^verbatim>\<open>NULL\<close>.
\<close>

type_synonym 'r cond = "'r \<Rightarrow> bool option"

definition isnot_None :: "('r \<Rightarrow> 'a option) \<Rightarrow> 'r cond" where
  "isnot_None col r = Some (col r \<noteq> None)"

definition is_None :: "('r \<Rightarrow> 'a option) \<Rightarrow> 'r cond" where
  "is_None col r = Some (col r = None)"

definition col_eq :: "('r \<Rightarrow> 'a option) \<Rightarrow> 'a \<Rightarrow> 'r cond" where
  "col_eq col v r = (case col r of None \<Rightarrow> None | Some x \<Rightarrow> Some (x = v))"

definition col_ne :: "('r \<Rightarrow> 'a option) \<Rightarrow> 'a \<Rightarrow> 'r cond" where
  "col_ne col v r = (case col r of None \<Rightarrow> None | Some x \<Rightarrow> Some (x \<noteq> v))"

definition col_in :: "('r \<Rightarrow> 'a option) \<Rightarrow> 'a list \<Rightarrow> 'r cond" where
  "col_in col vs r = (case col r of None \<Rightarrow> None | Some x \<Rightarrow> Some (x \<in> set vs))"

definition col_ge :: "('r \<Rightarrow> int option) \<Rightarrow> int \<Rightarrow> 'r cond" where
  "col_ge col v r = (case col r of None \<Rightarrow> None | Some x \<Rightarrow> Some (v \<le> x))"

definition col_le :: "('r \<Rightarrow> int option) \<Rightarrow> int \<Rightarrow> 'r cond" where
  "col_le col v r = (case col r of None \<Rightarrow> None | Some x \<Rightarrow> Some (x \<le> v))"

definition and3 :: "bool option \<Rightarrow> bool option \<Rightarrow> bool option" where
  "and3 a b =
     (if a = Some False \<or> b = Some False then Some False
      else if a = None \<or> b = None then None
      else Some True)"

definition or3 :: "bool option \<Rightarrow> bool option \<Rightarrow> bool option" where
  "or3 a b =
     (if a = Some True \<or> b = Some True then Some True
      else if a = None \<or> b = None then None
      else Some False)"

definition sql_or :: "'r cond \<Rightarrow> 'r cond \<Rightarrow> 'r cond" where
  "sql_or c d r = or3 (c r) (d r)"

definition sql_and :: "'r cond list \<Rightarrow> 'r cond" where
  "sql_and cs r = foldr (\<lambda>c acc. and3 (c r) acc) cs (Some True)"

definition sql_where :: "'r cond \<Rightarrow> 'r list \<Rightarrow> 'r list" where
  "sql_where c rows = filter (\<lambda>r. c r = Some True) rows"

definition non_null :: "'a option list \<Rightarrow> 'a list" where
  "non_null xs = List.map_filter (\<lambda>x. x) xs"

definition sql_count :: "'a option list \<Rightarrow> int" where
  "sql_count xs = int (length (non_null xs))"

definition mean :: "real list \<Rightarrow> real" where
  "mean vs = sum_list vs / real (length vs)"

definition sql_avg :: "real option list \<Rightarrow> real option" where
  "sql_avg xs =
     (let vs = non_null xs
      in if vs = [] then None else Some (mean vs))"

definition sql_sum :: "int option list \<Rightarrow> int option" where
  "sql_sum xs =
     (let vs = non_null xs
      in if vs = [] then None else Some (sum_list vs))"

text \<open>The column \<^verbatim>\<open>Mother.year\<close> is never \<^verbatim>\<open>NULL\<close>.\<close>

definition year_col :: "mother \<Rightarrow> int option" where
  "year_col r = Some (year r)"

section \<open>The nested result dictionary\<close>

text \<open>
  \<^verbatim>\<open>{age_group: {sub_group: {year: percentage}}}\<close>. \<open>insert3\<close> is the three statements
  at the end of the loop body of \<^verbatim>\<open>get_factor_data\<close>: create the two inner dictionaries
  when the key is new, then assign.
\<close>

type_synonym nested = "string \<rightharpoonup> (string \<rightharpoonup> (int \<rightharpoonup> real))"

definition insert3 :: "nested \<Rightarrow> string \<Rightarrow> string \<Rightarrow> int \<Rightarrow> real \<Rightarrow> nested" where
  "insert3 m a s y p =
     (let inner = (case m a of None \<Rightarrow> Map.empty | Some d \<Rightarrow> d);
          leaf = (case inner s of None \<Rightarrow> Map.empty | Some e \<Rightarrow> e)
      in m(a \<mapsto> inner(s \<mapsto> leaf(y \<mapsto> p))))"

text \<open>Reading \<^verbatim>\<open>m[a][s][y]\<close>, \<open>None\<close> when one of the three keys is missing.\<close>

definition lookup3 :: "nested \<Rightarrow> string \<Rightarrow> string \<Rightarrow> int \<Rightarrow> real option" where
  "lookup3 m a s y =
     (case m a of
        None \<Rightarrow> None
      | Some d \<Rightarrow> (case d s of None \<Rightarrow> None | Some e \<Rightarrow> e y))"

record factor_result =
  factor :: string
  user_age_group :: "string option"
  years :: "int list"
  age_groups :: nested

section \<open>get_factor_data: the detailed view\<close>

text \<open>
  The year conditions of both views (lines 265-271 and 374-380):
  \<^verbatim>\<open>if start_year and end_year: ... elif start_year: ... elif end_year: ...\<close>
\<close>

definition year_conditions :: "int option \<Rightarrow> int option \<Rightarrow> mother cond list" where
  "year_conditions start_year end_year =
     (if truthy_int start_year \<and> truthy_int end_year then
        [col_ge year_col (the end_year), col_le year_col (the start_year)]
      else if truthy_int start_year then [col_le year_col (the start_year)]
      else if truthy_int end_year then [col_ge year_col (the end_year)]
      else [])"

text \<open>
  The sub-group condition (lines 256-261). \<^verbatim>\<open>subgroup_field\<close> is a column object, which
  is true as a Python value, so the test is on \<^verbatim>\<open>sub_group\<close> alone.
\<close>

definition sub_group_conditions ::
  "(mother \<Rightarrow> string option) \<Rightarrow> string list option \<Rightarrow> mother cond list" where
  "sub_group_conditions subgroup_field sub_group =
     (if truthy_list sub_group \<and> 0 < length (the sub_group) then
        (if length (the sub_group) = 1 then [col_eq subgroup_field (the sub_group ! 0)]
         else [col_in subgroup_field (the sub_group)])
      else [])"

definition factor_conditions ::
  "(mother \<Rightarrow> bool option) \<Rightarrow> (mother \<Rightarrow> string option) \<Rightarrow> int option \<Rightarrow> int option \<Rightarrow>
   string list option \<Rightarrow> mother cond list" where
  "factor_conditions factor_field subgroup_field start_year end_year sub_group =
     [isnot_None factor_field, isnot_None age_group]
     @ sub_group_conditions subgroup_field sub_group
     @ year_conditions start_year end_year"

text \<open>
  A row of the grouped query: \<^verbatim>\<open>row.year\<close>, \<^verbatim>\<open>row.age_group\<close>, \<^verbatim>\<open>row.sub_group\<close>,
  \<^verbatim>\<open>row.avg_percentage\<close>.
\<close>

record detail_row =
  row_year :: int
  row_age_group :: "string option"
  row_sub_group :: "string option"
  row_avg_percentage :: "real option"

type_synonym detail_key = "int \<times> string option \<times> string option"

definition detail_key :: "(mother \<Rightarrow> string option) \<Rightarrow> mother \<Rightarrow> detail_key" where
  "detail_key subgroup_field r = (year r, age_group r, subgroup_field r)"

text \<open>
  \<^verbatim>\<open>select(year, age_group, sub_group, avg(percentage)).where(and_(*conditions))
  .group_by(year, age_group, sub_group).order_by(year, age_group, sub_group)\<close>:
  one row for each distinct key of the selected rows, in ascending order of the key
  (SQLite puts \<^verbatim>\<open>NULL\<close> first and compares text bytewise).
\<close>

definition factor_query ::
  "mother list \<Rightarrow> (mother \<Rightarrow> string option) \<Rightarrow> mother cond list \<Rightarrow> detail_row list" where
  "factor_query db subgroup_field conditions =
     (let selected = sql_where (sql_and conditions) db
      in map (\<lambda>k. \<lparr>row_year = fst k, row_age_group = fst (snd k), row_sub_group = snd (snd k),
                   row_avg_percentage =
                     sql_avg (map percentage
                       (filter (\<lambda>r. detail_key subgroup_field r = k) selected))\<rparr>)
           (sort (remdups (map (detail_key subgroup_field) selected))))"

text \<open>
  \<^verbatim>\<open>if not row.age_group or row.age_group.lower() in ['total', 'not stated']: continue\<close>
\<close>

definition skipped :: "string option \<Rightarrow> bool" where
  "skipped a = (\<not> truthy_str a \<or> lower (the a) \<in> set [''total'', ''not stated''])"

text \<open>\<^verbatim>\<open>str(row.sub_group) if row.sub_group else 'Unknown'\<close>\<close>

definition sub_group_value :: "string option \<Rightarrow> string" where
  "sub_group_value s = (if truthy_str s then the s else ''Unknown'')"

text \<open>\<^verbatim>\<open>float(x) if x else 0.0\<close> and \<^verbatim>\<open>int(x) if x else 0\<close>\<close>

definition float_or_zero :: "real option \<Rightarrow> real" where
  "float_or_zero x = (if truthy_real x then the x else 0)"

definition int_or_zero :: "int option \<Rightarrow> int" where
  "int_or_zero x = (if truthy_int x then the x else 0)"

text \<open>One iteration of the loop of lines 301-319, on the pair of the two accumulators.\<close>

definition detail_step :: "detail_row \<Rightarrow> nested \<times> int set \<Rightarrow> nested \<times> int set" where
  "detail_step row st =
     (if skipped (row_age_group row) then st
      else
        (let yr = row_year row;
             age_group_key = the (row_age_group row);
             sub_group_label = sub_group_value (row_sub_group row);
             pct = float_or_zero (row_avg_percentage row)
         in (insert3 (fst st) age_group_key sub_group_label yr pct, insert yr (snd st))))"

text \<open>
  Lines 240-247: the two columns the detailed view reads, \<open>None\<close> for a factor name the
  function does not know (it then returns at once).
\<close>

definition detail_fields ::
  "string \<Rightarrow> ((mother \<Rightarrow> bool option) \<times> (mother \<Rightarrow> string option)) option" where
  "detail_fields factor_name =
     (if factor_name = ''diabetes'' then Some (diabetes_pre, diabetes_subgroup)
      else if factor_name = ''hypertension'' then Some (hypertension_pre, hypertension_subgroup)
      else None)"

text \<open>The body of \<^verbatim>\<open>get_factor_data\<close> after the factor's columns are chosen.\<close>

definition factor_trend ::
  "mother list \<Rightarrow> (mother \<Rightarrow> bool option) \<Rightarrow> (mother \<Rightarrow> string option) \<Rightarrow> int option \<Rightarrow>
   int option \<Rightarrow> string list option \<Rightarrow> factor_result \<Rightarrow> factor_result" where
  "factor_trend db factor_field subgroup_field start_year end_year sub_group results =
     (let conditions = factor_conditions factor_field subgroup_field start_year end_year sub_group;
          result = factor_query db subgroup_field conditions;
          st = fold detail_step result (Map.empty, {})
      in results\<lparr>years := sorted_list_of_set (snd st), age_groups := fst st\<rparr>)"

definition get_factor_data ::
  "mother list \<Rightarrow> string \<Rightarrow> string option \<Rightarrow> int option \<Rightarrow> int option \<Rightarrow>
   string list option \<Rightarrow> factor_result" where
  "get_factor_data db factor_name age_group_arg start_year end_year sub_group =
     (let results = \<lparr>factor = factor_name, user_age_group = age_group_arg, years = [],
                     age_groups = Map.empty\<rparr>
      in case detail_fields factor_name of
           None \<Rightarrow> results
         | Some (factor_field, subgroup_field) \<Rightarrow>
             factor_trend db factor_field subgroup_field start_year end_year sub_group results)"

text \<open>
  The rows the \<^verbatim>\<open>WHERE\<close> clause of \<^verbatim>\<open>get_factor_data\<close> selects and the groups its
  query returns (none when the function returned before the query).
\<close>

definition detail_selected ::
  "mother list \<Rightarrow> string \<Rightarrow> int option \<Rightarrow> int option \<Rightarrow> string list option \<Rightarrow> mother list" where
  "detail_selected db factor_name start_year end_year sub_group =
     (case detail_fields factor_name of
        None \<Rightarrow> []
      | Some (factor_field, subgroup_field) \<Rightarrow>
          sql_where
            (sql_and (factor_conditions factor_field subgroup_field start_year end_year sub_group))
            db)"

definition detail_groups ::
  "mother list \<Rightarrow> string \<Rightarrow> int option \<Rightarrow> int option \<Rightarrow> string list option \<Rightarrow>
   detail_row list" where
  "detail_groups db factor_name start_year end_year sub_group =
     (case detail_fields factor_name of
        None \<Rightarrow> []
      | Some (factor_field, subgroup_field) \<Rightarrow>
          factor_query db subgroup_field
            (factor_conditions factor_field subgroup_field start_year end_year sub_group))"

section \<open>get_factor_data_simple: the Yes/No view\<close>

text \<open>
  The conditions of lines 353-380. The sub-group condition is
  \<^verbatim>\<open>or_(subgroup.is_(None), subgroup != "Total")\<close>.
\<close>

definition simple_conditions ::
  "string \<Rightarrow> (mother \<Rightarrow> bool option) \<Rightarrow> int option \<Rightarrow> int option \<Rightarrow> mother cond list" where
  "simple_conditions factor_name factor_field start_year end_year =
     [isnot_None factor_field, isnot_None age_group]
     @ (if factor_name = ''diabetes'' then
          [sql_or (is_None diabetes_subgroup) (col_ne diabetes_subgroup ''Total'')]
        else if factor_name = ''hypertension'' then
          [sql_or (is_None hypertension_subgroup) (col_ne hypertension_subgroup ''Total'')]
        else [])
     @ year_conditions start_year end_year"

text \<open>
  A row of the grouped query: \<^verbatim>\<open>row.year\<close>, \<^verbatim>\<open>row.age_group\<close>, \<^verbatim>\<open>row.has_factor\<close>,
  \<^verbatim>\<open>row.total_mothers\<close> (the \<^verbatim>\<open>SUM\<close> of the group).
\<close>

record simple_row =
  srow_year :: int
  srow_age_group :: "string option"
  has_factor :: "bool option"
  sum_total_mothers :: "int option"

type_synonym simple_key = "int \<times> string option \<times> bool option"

definition simple_key :: "(mother \<Rightarrow> bool option) \<Rightarrow> mother \<Rightarrow> simple_key" where
  "simple_key factor_field r = (year r, age_group r, factor_field r)"

text \<open>
  \<^verbatim>\<open>select(year, age_group, factor, sum(total_mothers)).where(and_(*conditions))
  .group_by(year, age_group, factor).order_by(year, age_group, factor)\<close>
\<close>

definition simple_query ::
  "mother list \<Rightarrow> (mother \<Rightarrow> bool option) \<Rightarrow> mother cond list \<Rightarrow> simple_row list" where
  "simple_query db factor_field conditions =
     (let selected = sql_where (sql_and conditions) db
      in map (\<lambda>k. \<lparr>srow_year = fst k, srow_age_group = fst (snd k), has_factor = snd (snd k),
                   sum_total_mothers =
                     sql_sum (map total_mothers
                       (filter (\<lambda>r. simple_key factor_field r = k) selected))\<rparr>)
           (sort (remdups (map (simple_key factor_field) selected))))"

text \<open>
  \<^verbatim>\<open>temp_data\<close>, a dictionary from \<^verbatim>\<open>(age_group, year)\<close> to \<^verbatim>\<open>{True: count, False: count}\<close>.
  The second loop iterates over it, so it is an association list in insertion order:
  \<open>AList.update\<close> replaces the value of a key in place and appends a new key.
\<close>

type_synonym temp_data = "((string \<times> int) \<times> (bool \<Rightarrow> int)) list"

text \<open>One iteration of the first loop (lines 411-426).\<close>

definition simple_step :: "simple_row \<Rightarrow> temp_data \<times> int set \<Rightarrow> temp_data \<times> int set" where
  "simple_step row st =
     (if skipped (srow_age_group row) then st
      else
        (let yr = srow_year row;
             age_group_key = the (srow_age_group row);
             hf = (has_factor row = Some True);
             cnt = int_or_zero (sum_total_mothers row);
             key = (age_group_key, yr);
             temp1 = (if map_of (fst st) key = None then AList.update key (\<lambda>b. 0) (fst st)
                      else fst st);
             counts = the (map_of temp1 key)
         in (AList.update key (counts(hf := cnt)) temp1, insert yr (snd st))))"

text \<open>One iteration of the second loop (lines 429-442).\<close>

definition percent_step :: "(string \<times> int) \<times> (bool \<Rightarrow> int) \<Rightarrow> nested \<Rightarrow> nested" where
  "percent_step entry age_groups_data =
     (let age_group_key = fst (fst entry);
          yr = snd (fst entry);
          counts = snd entry;
          total_count = counts True + counts False
      in if total_count = 0 then age_groups_data
         else
           fold (\<lambda>hl m. insert3 m age_group_key (snd hl) yr
                   (if total_count > 0
                    then real_of_int (counts (fst hl)) / real_of_int total_count * 100
                    else 0))
             [(True, ''Yes''), (False, ''No'')] age_groups_data)"

definition simple_first_pass ::
  "mother list \<Rightarrow> string \<Rightarrow> (mother \<Rightarrow> bool option) \<Rightarrow> int option \<Rightarrow> int option \<Rightarrow>
   temp_data \<times> int set" where
  "simple_first_pass db factor_name factor_field start_year end_year =
     fold simple_step
       (simple_query db factor_field
          (simple_conditions factor_name factor_field start_year end_year))
       ([], {})"

definition simple_trend ::
  "mother list \<Rightarrow> string \<Rightarrow> (mother \<Rightarrow> bool option) \<Rightarrow> int option \<Rightarrow> int option \<Rightarrow>
   factor_result \<Rightarrow> factor_result" where
  "simple_trend db factor_name factor_field start_year end_year results =
     (let st = simple_first_pass db factor_name factor_field start_year end_year
      in results\<lparr>years := sorted_list_of_set (snd st),
                 age_groups := fold percent_step (fst st) Map.empty\<rparr>)"

text \<open>Lines 345-350: the column the simple view reads.\<close>

definition simple_field :: "string \<Rightarrow> (mother \<Rightarrow> bool option) option" where
  "simple_field factor_name =
     (if factor_name = ''diabetes'' then Some diabetes_pre
      else if factor_name = ''hypertension'' then Some hypertension_pre
      else None)"

definition get_factor_data_simple ::
  "mother list \<Rightarrow> string \<Rightarrow> string option \<Rightarrow> int option \<Rightarrow> int option \<Rightarrow> factor_result" where
  "get_factor_data_simple db factor_name age_group_arg start_year end_year =
     (let results = \<lparr>factor = factor_name, user_age_group = age_group_arg, years = [],
                     age_groups = Map.empty\<rparr>
      in case simple_field factor_name of
           None \<Rightarrow> results
         | Some factor_field \<Rightarrow>
             simple_trend db factor_name factor_field start_year end_year results)"

text \<open>
  The rows the \<^verbatim>\<open>WHERE\<close> clause of \<^verbatim>\<open>get_factor_data_simple\<close> selects, the groups its
  query returns, and its local \<^verbatim>\<open>temp_data\<close> after the first loop (all empty when the
  function returned before the query).
\<close>

definition simple_selected ::
  "mother list \<Rightarrow> string \<Rightarrow> int option \<Rightarrow> int option \<Rightarrow> mother list" where
  "simple_selected db factor_name start_year end_year =
     (case simple_field factor_name of
        None \<Rightarrow> []
      | Some factor_field \<Rightarrow>
          sql_where (sql_and (simple_conditions factor_name factor_field start_year end_year)) db)"

definition simple_groups ::
  "mother list \<Rightarrow> string \<Rightarrow> int option \<Rightarrow> int option \<Rightarrow> simple_row list" where
  "simple_groups db factor_name start_year end_year =
     (case simple_field factor_name of
        None \<Rightarrow> []
      | Some factor_field \<Rightarrow>
          simple_query db factor_field
            (simple_conditions factor_name factor_field start_year end_year))"

definition temp_data_of :: "mother list \<Rightarrow> string \<Rightarrow> int option \<Rightarrow> int option \<Rightarrow> temp_data" where
  "temp_data_of db factor_name start_year end_year =
     (case simple_field factor_name of
        None \<Rightarrow> []
      | Some factor_field \<Rightarrow>
          fst (simple_first_pass db factor_name factor_field start_year end_year))"

text \<open>Reading \<^verbatim>\<open>temp_data[key][b]\<close>, \<open>None\<close> when the key is missing.\<close>

definition count_of :: "temp_data \<Rightarrow> string \<times> int \<Rightarrow> bool \<Rightarrow> int option" where
  "count_of t key b = (case map_of t key of None \<Rightarrow> None | Some counts \<Rightarrow> Some (counts b))"

section \<open>The scenario snapshots\<close>

text \<open>
  \<^verbatim>\<open>select(count(Mother.id), avg(Mother.percentage))\<close> over the selected rows: an
  aggregate query with no \<^verbatim>\<open>GROUP BY\<close> returns one row, also when no row is selected.
  \<^verbatim>\<open>result.first()\<close> is the first row, or \<^verbatim>\<open>None\<close>.
\<close>

definition stats_query :: "mother list \<Rightarrow> (int \<times> real option) list" where
  "stats_query rows = [(sql_count (map mother_id rows), sql_avg (map percentage rows))]"

definition first :: "'a list \<Rightarrow> 'a option" where
  "first xs = (case xs of [] \<Rightarrow> None | x # _ \<Rightarrow> Some x)"

record stats =
  total :: int
  avg_percentage :: real

text \<open>
  \<^verbatim>\<open>{"total": stats.total if stats else 0,
    "avg_percentage": float(stats.avg_percentage) if stats and stats.avg_percentage else 0.0}\<close>
\<close>

definition stats_dict :: "(int \<times> real option) option \<Rightarrow> stats" where
  "stats_dict s =
     \<lparr>total = (case s of None \<Rightarrow> 0 | Some r \<Rightarrow> fst r),
      avg_percentage =
        (case s of None \<Rightarrow> 0 | Some r \<Rightarrow> if truthy_real (snd r) then the (snd r) else 0)\<rparr>"

text \<open>The filters both controllers build from the profile attributes.\<close>

definition profile_filters ::
  "string option \<Rightarrow> string option \<Rightarrow> string option \<Rightarrow> bool option \<Rightarrow> bool option \<Rightarrow>
   string option \<Rightarrow> mother cond list" where
  "profile_filters ag smoking bmi diabetes hypertension lhd_arg =
     (if truthy_str ag then [col_eq age_group (the ag)] else [])
     @ (if truthy_str smoking then [col_eq smoking_status (the smoking)] else [])
     @ (if truthy_str bmi then [col_eq bmi_category (the bmi)] else [])
     @ (if diabetes \<noteq> None then [col_eq diabetes_pre (the diabetes)] else [])
     @ (if hypertension \<noteq> None then [col_eq hypertension_pre (the hypertension)] else [])
     @ (if truthy_str lhd_arg then [col_eq lhd (the lhd_arg)] else [])"

text \<open>
  \<^verbatim>\<open>get_preparing_scenario_data\<close> (scenario_controller.py). Its \<^verbatim>\<open>complications\<close> entry
  reads another table and is left out.
\<close>

record preparing_result =
  mothers :: stats
  overall_average :: stats

definition get_preparing_scenario_data ::
  "mother list \<Rightarrow> string option \<Rightarrow> string option \<Rightarrow> string option \<Rightarrow> bool option \<Rightarrow>
   bool option \<Rightarrow> string option \<Rightarrow> preparing_result" where
  "get_preparing_scenario_data db ag smoking bmi diabetes hypertension lhd_arg =
     (let filters = profile_filters ag smoking bmi diabetes hypertension lhd_arg;
          query = sql_where (col_eq year_col 2023) db;
          query = (if filters \<noteq> [] then sql_where (sql_and filters) query else query);
          overall_query = sql_where (col_eq year_col 2023) db
      in \<lparr>mothers = stats_dict (first (stats_query query)),
          overall_average = stats_dict (first (stats_query overall_query))\<rparr>)"

text \<open>
  \<^verbatim>\<open>get_comparison_data\<close> (comparison_controller.py). The \<^verbatim>\<open>filters\<close> dictionary is a
  record of its six entries, \<open>None\<close> for a missing key; an empty dictionary in the result
  is \<open>None\<close>.
\<close>

record profile =
  p_age_group :: "string option"
  p_smoking :: "string option"
  p_bmi :: "string option"
  p_diabetes :: "bool option"
  p_hypertension :: "bool option"
  p_lhd :: "string option"

record comparison_result =
  user_conditions :: profile
  user_stats :: "stats option"
  comparison_overall_average :: "stats option"

definition get_comparison_data :: "mother list \<Rightarrow> string \<Rightarrow> profile \<Rightarrow> comparison_result" where
  "get_comparison_data db scenario filters =
     (let results = \<lparr>user_conditions = filters, user_stats = None,
                     comparison_overall_average = None\<rparr>
      in if scenario = ''preparing'' then
           (let user_filters =
                  profile_filters (p_age_group filters) (p_smoking filters) (p_bmi filters)
                    (p_diabetes filters) (p_hypertension filters) (p_lhd filters);
                results =
                  (if user_filters \<noteq> [] then
                     results\<lparr>user_stats :=
                       Some (stats_dict (first (stats_query (sql_where (sql_and user_filters) db))))\<rparr>
                   else results)
            in results\<lparr>comparison_overall_average :=
                 Some (stats_dict (first (stats_query (sql_where (col_eq year_col 2023) db))))\<rparr>)
         else if scenario = ''pregnant'' then results
         else results)"

section \<open>Notions used in the statements\<close>

text \<open>
  The value \<^verbatim>\<open>AVG\<close> and the loop together give a group: the arithmetic mean of the
  values that are not \<^verbatim>\<open>NULL\<close>, and zero when there is none.
\<close>

definition mean_or_zero :: "real list \<Rightarrow> real" where
  "mean_or_zero vs = (if vs = [] then 0 else mean vs)"

text \<open>
  A row of the detailed query is written to the entry \<open>a\<close>, \<open>s\<close>, \<open>y\<close> of the nested
  dictionary.
\<close>

definition detail_hit :: "detail_row \<Rightarrow> string \<Rightarrow> string \<Rightarrow> int \<Rightarrow> bool" where
  "detail_hit g a s y =
     (\<not> skipped (row_age_group g) \<and> the (row_age_group g) = a \<and>
      sub_group_value (row_sub_group g) = s \<and> row_year g = y)"

text \<open>Rows of the diabetes columns for the examples; every other column is \<^verbatim>\<open>NULL\<close>.\<close>

definition example_row ::
  "string \<Rightarrow> int \<Rightarrow> bool \<Rightarrow> string option \<Rightarrow> int option \<Rightarrow> real option \<Rightarrow> mother" where
  "example_row a y d s n p =
     \<lparr>mother_id = None, age_group = Some a, smoking_status = None, bmi_category = None,
      diabetes_pre = Some d, hypertension_pre = None, diabetes_subgroup = s,
      hypertension_subgroup = None, cultural_background = None, lhd = None, lga = None,
      parity = None, year = y, total_mothers = n, percentage = p\<rparr>"

definition null_db :: "mother list" where
  "null_db =
     [example_row ''20-24'' 2022 True (Some ''Gestational diabetes'') None (Some 5),
      example_row ''20-24'' 2022 True (Some ''Gestational diabetes'') None None]"

definition mean_db :: "mother list" where
  "mean_db =
     [example_row ''20-24'' 2022 True (Some ''Gestational diabetes'') None (Some 5),
      example_row ''20-24'' 2022 True (Some ''Gestational diabetes'') None (Some 7),
      example_row ''20-24'' 2022 True None None (Some 1),
      example_row ''Total'' 2022 True (Some ''Gestational diabetes'') None (Some 9)]"

text \<open>
  A row of the simple query is written to the count \<open>b\<close> of the key \<open>k\<close> of
  \<^verbatim>\<open>temp_data\<close>.
\<close>

definition simple_hit :: "simple_row \<Rightarrow> string \<times> int \<Rightarrow> bool \<Rightarrow> bool" where
  "simple_hit g k b =
     (\<not> skipped (srow_age_group g) \<and> (the (srow_age_group g), srow_year g) = k \<and>
      (has_factor g = Some True) = b)"

text \<open>Reading \<^verbatim>\<open>temp_data[k][b]\<close>, zero when the key is missing.\<close>

definition counts_at :: "temp_data \<Rightarrow> string \<times> int \<Rightarrow> bool \<Rightarrow> int" where
  "counts_at t k b = (case map_of t k of None \<Rightarrow> 0 | Some c \<Rightarrow> c b)"


text \<open>Further example tables.\<close>

definition dup_db :: "mother list" where
  "dup_db =
     [example_row ''25-29'' 2023 True (Some ''Pre-existing diabetes'') (Some 30) None,
      example_row ''25-29'' 2023 True (Some ''Gestational diabetes'') (Some 20) None,
      example_row ''25-29'' 2023 False None (Some 50) None]"


definition zero_db :: "mother list" where
  "zero_db =
     [example_row ''25-29'' 2023 True None (Some 30) None,
      example_row ''25-29'' 2023 False None (Some 70) None,
      example_row ''30-34'' 2020 True None (Some 0) None,
      example_row ''30-34'' 2020 False None None None,
      example_row ''Total'' 2019 True None (Some 9) None]"

definition sentinel_db :: "mother list" where
  "sentinel_db =
     [example_row ''20-24'' 2023 True None (Some 4) (Some 5),
      example_row ''Total'' 2020 True None (Some 9) (Some 6),
      example_row ''NOT STATED'' 2019 False None (Some 2) (Some 7),
      example_row ''20-24'' 2021 False None (Some 6) (Some 8),
      example_row ''30-34'' 2021 True None (Some 1) (Some 9)]"

definition year_db :: "mother list" where
  "year_db =
     [example_row ''20-24'' 2018 True None (Some 1) (Some 1),
      example_row ''20-24'' 2019 True None (Some 1) (Some 2),
      example_row ''20-24'' 2021 True None (Some 1) (Some 3),
      example_row ''20-24'' 2023 True None (Some 1) (Some 4),
      example_row ''20-24'' 2024 True None (Some 1) (Some 5)]"

definition subgroup_db :: "mother list" where
  "subgroup_db =
     [example_row ''25-29'' 2023 True None (Some 10) None,
      example_row ''25-29'' 2023 True (Some ''Total'') (Some 100) None,
      example_row ''25-29'' 2023 True (Some ''total'') (Some 5) None,
      example_row ''25-29'' 2023 False None (Some 85) None]"

text \<open>A \<^verbatim>\<open>filters\<close> dictionary with no profile attribute.\<close>

definition no_profile :: profile where
  "no_profile =
     \<lparr>p_age_group = None, p_smoking = None, p_bmi = None, p_diabetes = None,
      p_hypertension = None, p_lhd = None\<rparr>"

text \<open>Rows with an \<^verbatim>\<open>id\<close>, which \<^verbatim>\<open>count(Mother.id)\<close> counts.\<close>

definition snapshot_db :: "mother list" where
  "snapshot_db =
     [(example_row ''20-24'' 2023 True None (Some 10) (Some 5))\<lparr>mother_id := Some 1\<rparr>,
      (example_row ''25-29'' 2023 False None (Some 20) (Some 7))\<lparr>mother_id := Some 2\<rparr>,
      (example_row ''25-29'' 2019 False None (Some 30) (Some 9))\<lparr>mother_id := Some 3\<rparr>]"

definition old_db :: "mother list" where
  "old_db =
     [(example_row ''25-29'' 2019 False None (Some 30) (Some 9))\<lparr>mother_id := Some 3\<rparr>]"

section \<open>Lemmas on the query language and on the nested dictionary\<close>

lemma sql_and_True: "sql_and cs r = Some True \<longleftrightarrow> (\<forall>c\<in>set cs. c r = Some True)"
  by (induction cs) (auto simp: sql_and_def and3_def)

lemma set_sql_where: "set (sql_where c rows) = {r \<in> set rows. c r = Some True}"
  by (simp add: sql_where_def)

lemma lookup3_insert3:
  "lookup3 (insert3 m a s y p) a' s' y' =
     (if a' = a \<and> s' = s \<and> y' = y then Some p else lookup3 m a' s' y')"
  by (auto simp: lookup3_def insert3_def Let_def split: option.splits)

lemma dom_insert3: "dom (insert3 m a s y p) = insert a (dom m)"
  by (auto simp: insert3_def Let_def)

lemma lookup3_empty: "lookup3 Map.empty a s y = None"
  by (simp add: lookup3_def)

lemma float_or_zero_sql_avg: "float_or_zero (sql_avg xs) = mean_or_zero (non_null xs)"
  by (simp add: float_or_zero_def sql_avg_def mean_or_zero_def truthy_real_def Let_def)

section \<open>The loop of the detailed view\<close>

lemma detail_step_dom:
  "dom (fst (detail_step row st)) =
     (if skipped (row_age_group row) then dom (fst st)
      else insert (the (row_age_group row)) (dom (fst st)))"
  by (simp add: detail_step_def Let_def dom_insert3)

lemma detail_fold_dom:
  "dom (fst (fold detail_step rows st)) =
     dom (fst st) \<union> (\<lambda>g. the (row_age_group g)) ` {g \<in> set rows. \<not> skipped (row_age_group g)}"
  by (induction rows arbitrary: st) (auto simp: detail_step_dom)

lemma detail_step_years:
  "snd (detail_step row st) =
     (if skipped (row_age_group row) then snd st else insert (row_year row) (snd st))"
  by (simp add: detail_step_def Let_def)

lemma detail_fold_years:
  "snd (fold detail_step rows st) =
     snd st \<union> row_year ` {g \<in> set rows. \<not> skipped (row_age_group g)}"
  by (induction rows arbitrary: st) (auto simp: detail_step_years)

lemma detail_step_lookup:
  "lookup3 (fst (detail_step g st)) a s y =
     (if detail_hit g a s y then Some (float_or_zero (row_avg_percentage g))
      else lookup3 (fst st) a s y)"
  by (auto simp: detail_step_def detail_hit_def Let_def lookup3_insert3)

lemma detail_fold_miss:
  "\<forall>g\<in>set rows. \<not> detail_hit g a s y \<Longrightarrow>
   lookup3 (fst (fold detail_step rows st)) a s y = lookup3 (fst st) a s y"
  by (induction rows arbitrary: st) (simp_all add: detail_step_lookup)

text \<open>
  When every row written to an entry carries the same value, the entry holds it, whatever
  the order of the rows.
\<close>

lemma detail_fold_hit:
  "\<exists>g\<in>set rows. detail_hit g a s y \<Longrightarrow>
   \<forall>g\<in>set rows. detail_hit g a s y \<longrightarrow> float_or_zero (row_avg_percentage g) = p \<Longrightarrow>
   lookup3 (fst (fold detail_step rows st)) a s y = Some p"
proof (induction rows arbitrary: st)
  case Nil
  then show ?case by simp
next
  case (Cons g rows)
  show ?case
  proof (cases "\<exists>h\<in>set rows. detail_hit h a s y")
    case True
    with Cons show ?thesis by simp
  next
    case False
    with Cons.prems have hit: "detail_hit g a s y" by auto
    with Cons.prems have "float_or_zero (row_avg_percentage g) = p" by simp
    with hit False show ?thesis
      by (simp add: detail_fold_miss detail_step_lookup)
  qed
qed

lemma set_factor_query:
  "set (factor_query db sf conds) =
     (\<lambda>r. \<lparr>row_year = year r, row_age_group = age_group r, row_sub_group = sf r,
            row_avg_percentage =
              sql_avg (map percentage
                (filter (\<lambda>r'. detail_key sf r' = detail_key sf r)
                   (sql_where (sql_and conds) db)))\<rparr>) ` set (sql_where (sql_and conds) db)"
  by (auto simp: factor_query_def Let_def detail_key_def image_iff)

lemma selected_age_group:
  "r \<in> set (sql_where (sql_and (factor_conditions ff sf sy ey sg)) db) \<Longrightarrow> age_group r \<noteq> None"
  by (auto simp: set_sql_where sql_and_True factor_conditions_def isnot_None_def)

section \<open>The two loops of the simple view\<close>

lemma simple_step_counts:
  "counts_at (fst (simple_step g st)) k b =
     (if simple_hit g k b then int_or_zero (sum_total_mothers g) else counts_at (fst st) k b)"
  by (auto simp: simple_step_def simple_hit_def counts_at_def Let_def AList.update_conv'
      split: option.splits)

lemma simple_step_keys:
  "fst ` set (fst (simple_step g st)) =
     (if skipped (srow_age_group g) then fst ` set (fst st)
      else insert (the (srow_age_group g), srow_year g) (fst ` set (fst st)))"
  by (simp add: simple_step_def Let_def AList.dom_update)

lemma simple_step_distinct:
  "distinct (map fst (fst st)) \<Longrightarrow> distinct (map fst (fst (simple_step g st)))"
  by (simp add: simple_step_def Let_def AList.distinct_update)

lemma simple_step_years:
  "snd (simple_step g st) =
     (if skipped (srow_age_group g) then snd st else insert (srow_year g) (snd st))"
  by (simp add: simple_step_def Let_def)

lemma simple_fold_keys:
  "fst ` set (fst (fold simple_step rows st)) =
     fst ` set (fst st) \<union>
     (\<lambda>g. (the (srow_age_group g), srow_year g)) ` {g \<in> set rows. \<not> skipped (srow_age_group g)}"
  by (induction rows arbitrary: st) (auto simp: simple_step_keys)

lemma simple_fold_distinct:
  "distinct (map fst (fst st)) \<Longrightarrow> distinct (map fst (fst (fold simple_step rows st)))"
  by (induction rows arbitrary: st) (simp_all add: simple_step_distinct)

lemma simple_fold_years:
  "snd (fold simple_step rows st) =
     snd st \<union> srow_year ` {g \<in> set rows. \<not> skipped (srow_age_group g)}"
  by (induction rows arbitrary: st) (auto simp: simple_step_years)

lemma simple_fold_miss:
  "\<forall>g\<in>set rows. \<not> simple_hit g k b \<Longrightarrow>
   counts_at (fst (fold simple_step rows st)) k b = counts_at (fst st) k b"
  by (induction rows arbitrary: st) (simp_all add: simple_step_counts)

lemma simple_fold_hit:
  "\<exists>g\<in>set rows. simple_hit g k b \<Longrightarrow>
   \<forall>g\<in>set rows. simple_hit g k b \<longrightarrow> int_or_zero (sum_total_mothers g) = n \<Longrightarrow>
   counts_at (fst (fold simple_step rows st)) k b = n"
proof (induction rows arbitrary: st)
  case Nil
  then show ?case by simp
next
  case (Cons g rows)
  show ?case
  proof (cases "\<exists>h\<in>set rows. simple_hit h k b")
    case True
    with Cons show ?thesis by simp
  next
    case False
    with Cons.prems have hit: "simple_hit g k b" by auto
    with Cons.prems have "int_or_zero (sum_total_mothers g) = n" by simp
    with hit False show ?thesis
      by (simp add: simple_fold_miss simple_step_counts)
  qed
qed

lemma percent_step_lookup:
  "lookup3 (percent_step e m) a l y =
     (if fst e = (a, y) \<and> snd e True + snd e False \<noteq> 0 \<and> (l = ''Yes'' \<or> l = ''No'') then
        Some (if snd e True + snd e False > 0
              then real_of_int (snd e (l = ''Yes'')) / real_of_int (snd e True + snd e False) * 100
              else 0)
      else lookup3 m a l y)"
  by (cases e) (auto simp: percent_step_def Let_def lookup3_insert3)

lemma percent_step_dom:
  "dom (percent_step e m) =
     (if snd e True + snd e False = 0 then dom m else insert (fst (fst e)) (dom m))"
  by (auto simp: percent_step_def Let_def dom_insert3)

lemma percent_fold_dom: "dom (fold percent_step t m) \<subseteq> dom m \<union> fst ` fst ` set t"
proof (induction t arbitrary: m)
  case Nil
  then show ?case by simp
next
  case (Cons e t)
  have "dom (fold percent_step t (percent_step e m)) \<subseteq> dom (percent_step e m) \<union> fst ` fst ` set t"
    by (rule Cons.IH)
  then show ?case
    by (auto simp: percent_step_dom split: if_splits)
qed

lemma percent_fold_lookup:
  "distinct (map fst t) \<Longrightarrow>
   lookup3 (fold percent_step t m) a l y =
     (case map_of t (a, y) of
        None \<Rightarrow> lookup3 m a l y
      | Some c \<Rightarrow>
          if c True + c False \<noteq> 0 \<and> (l = ''Yes'' \<or> l = ''No'') then
            Some (if c True + c False > 0
                  then real_of_int (c (l = ''Yes'')) / real_of_int (c True + c False) * 100
                  else 0)
          else lookup3 m a l y)"
proof (induction t arbitrary: m)
  case Nil
  then show ?case by simp
next
  case (Cons e t)
  obtain k c where e: "e = (k, c)" by (cases e)
  from Cons.prems e have d: "distinct (map fst t)" and nk: "k \<notin> fst ` set t" by auto
  show ?case
  proof (cases "k = (a, y)")
    case True
    with nk have "map_of t (a, y) = None" by (simp add: map_of_eq_None_iff)
    with True e show ?thesis
      by (simp add: Cons.IH [OF d] percent_step_lookup)
  next
    case False
    with e show ?thesis
      by (simp add: Cons.IH [OF d] percent_step_lookup split: option.splits)
  qed
qed

lemma int_or_zero_sql_sum: "int_or_zero (sql_sum xs) = sum_list (non_null xs)"
  by (simp add: int_or_zero_def sql_sum_def truthy_int_def Let_def)

lemma set_simple_query:
  "set (simple_query db ff conds) =
     (\<lambda>r. \<lparr>srow_year = year r, srow_age_group = age_group r, has_factor = ff r,
            sum_total_mothers =
              sql_sum (map total_mothers
                (filter (\<lambda>r'. simple_key ff r' = simple_key ff r)
                   (sql_where (sql_and conds) db)))\<rparr>) ` set (sql_where (sql_and conds) db)"
  by (auto simp: simple_query_def Let_def simple_key_def image_iff)

lemma simple_selected_not_null:
  "r \<in> set (sql_where (sql_and (simple_conditions f ff sy ey)) db) \<Longrightarrow>
   age_group r \<noteq> None \<and> ff r \<noteq> None"
  by (auto simp: set_sql_where sql_and_True simple_conditions_def isnot_None_def)

lemma non_null_Nil: "non_null [] = []"
  by (simp add: non_null_def List.map_filter_def)


lemma count_of_counts_at:
  "k \<in> fst ` set t \<Longrightarrow> count_of t k b = Some (counts_at t k b)"
  by (auto simp: count_of_def counts_at_def map_of_eq_None_iff split: option.splits)

lemma temp_data_distinct: "distinct (map fst (temp_data_of db f sy ey))"
  by (simp add: temp_data_of_def simple_first_pass_def simple_fold_distinct split: option.splits)

lemma simple_age_groups:
  "age_groups (get_factor_data_simple db f ag sy ey) =
     fold percent_step (temp_data_of db f sy ey) Map.empty"
  by (simp add: get_factor_data_simple_def temp_data_of_def simple_trend_def Let_def
      split: option.splits)

lemma skipped_lower:
  "\<not> skipped a \<Longrightarrow> lower (the a) \<noteq> ''total'' \<and> lower (the a) \<noteq> ''not stated''"
  by (simp add: skipped_def)

lemma detail_dom_kept:
  "dom (age_groups (get_factor_data db f ag sy ey sg)) \<subseteq> the ` {a. \<not> skipped a}"
proof (cases "detail_fields f")
  case None
  then show ?thesis by (simp add: get_factor_data_def)
next
  case (Some p)
  then obtain ff sf where "detail_fields f = Some (ff, sf)" by (cases p) simp
  then have "dom (age_groups (get_factor_data db f ag sy ey sg)) =
      (\<lambda>g. the (row_age_group g)) `
        {g \<in> set (factor_query db sf (factor_conditions ff sf sy ey sg)).
           \<not> skipped (row_age_group g)}"
    by (simp add: get_factor_data_def factor_trend_def Let_def detail_fold_dom)
  then show ?thesis by auto
qed

lemma simple_dom_kept:
  "dom (age_groups (get_factor_data_simple db f ag sy ey)) \<subseteq> the ` {a. \<not> skipped a}"
proof (cases "simple_field f")
  case None
  then show ?thesis by (simp add: get_factor_data_simple_def)
next
  case (Some ff)
  let ?rows = "simple_query db ff (simple_conditions f ff sy ey)"
  from Some have "dom (age_groups (get_factor_data_simple db f ag sy ey)) \<subseteq>
      fst ` fst ` set (fst (fold simple_step ?rows ([], {})))"
    using percent_fold_dom [of "fst (fold simple_step ?rows ([], {}))" Map.empty]
    by (simp add: get_factor_data_simple_def simple_trend_def simple_first_pass_def Let_def)
  also have "\<dots> = (\<lambda>g. the (srow_age_group g)) ` {g \<in> set ?rows. \<not> skipped (srow_age_group g)}"
    by (simp add: simple_fold_keys image_image)
  finally show ?thesis by auto
qed

lemma lookup3_dom: "lookup3 m a s y = Some p \<Longrightarrow> a \<in> dom m"
  by (auto simp: lookup3_def split: option.splits)

section \<open>The conditions of the queries and the snapshots\<close>

lemma sql_where_append:
  "sql_where (sql_and (cs @ ds)) rows =
     filter (\<lambda>r. sql_and ds r = Some True) (sql_where (sql_and cs) rows)"
  by (auto simp: sql_where_def sql_and_True intro: filter_cong)

lemma sql_and_Nil: "sql_and [] r = Some True"
  by (simp add: sql_and_def)

lemma year_conditions_True:
  "sql_and (year_conditions sy ey) r = Some True \<longleftrightarrow>
     (truthy_int sy \<longrightarrow> year r \<le> the sy) \<and> (truthy_int ey \<longrightarrow> the ey \<le> year r)"
  by (auto simp: year_conditions_def sql_and_True col_ge_def col_le_def year_col_def)

lemma detail_selected_years:
  "detail_selected db f sy ey sg =
     filter (\<lambda>r. (truthy_int sy \<longrightarrow> year r \<le> the sy) \<and> (truthy_int ey \<longrightarrow> the ey \<le> year r))
       (detail_selected db f None None sg)"
proof (cases "detail_fields f")
  case None
  then show ?thesis by (simp add: detail_selected_def)
next
  case (Some p)
  then obtain ff sf where p: "detail_fields f = Some (ff, sf)" by (cases p) simp
  have n: "year_conditions None None = []"
    by (simp add: year_conditions_def truthy_int_def)
  have "factor_conditions ff sf sy ey sg =
      factor_conditions ff sf None None sg @ year_conditions sy ey"
    by (simp add: factor_conditions_def n)
  then show ?thesis
    by (simp add: detail_selected_def p sql_where_append year_conditions_True)
qed

lemma simple_selected_years:
  "simple_selected db f sy ey =
     filter (\<lambda>r. (truthy_int sy \<longrightarrow> year r \<le> the sy) \<and> (truthy_int ey \<longrightarrow> the ey \<le> year r))
       (simple_selected db f None None)"
proof (cases "simple_field f")
  case None
  then show ?thesis by (simp add: simple_selected_def)
next
  case (Some ff)
  have n: "year_conditions None None = []"
    by (simp add: year_conditions_def truthy_int_def)
  have "simple_conditions f ff sy ey = simple_conditions f ff None None @ year_conditions sy ey"
    by (simp add: simple_conditions_def n)
  then show ?thesis
    by (simp add: simple_selected_def Some sql_where_append year_conditions_True)
qed

lemma simple_subgroup_condition:
  "sql_or (is_None col) (col_ne col v) r = Some True \<longleftrightarrow> col r \<noteq> Some v"
  by (cases "col r") (auto simp: sql_or_def or3_def is_None_def col_ne_def)

lemma stats_dict_empty:
  "stats_dict (first (stats_query [])) = \<lparr>total = 0, avg_percentage = 0\<rparr>"
  by (simp add: stats_dict_def first_def stats_query_def sql_count_def sql_avg_def non_null_def
      List.map_filter_def truthy_real_def)

lemma profile_filters_None: "profile_filters None None None None None None = []"
  by (simp add: profile_filters_def truthy_str_def)

section \<open>Counts that are not negative, and the entries of the result\<close>





lemma detail_fold_entry:
  "lookup3 (fst (fold detail_step rows st)) a s y \<noteq> None \<longleftrightarrow>
     lookup3 (fst st) a s y \<noteq> None \<or> (\<exists>g\<in>set rows. detail_hit g a s y)"
  by (induction rows arbitrary: st) (auto simp: detail_step_lookup)

lemma detail_hit_iff:
  "(\<exists>a s. detail_hit g a s y) \<longleftrightarrow> \<not> skipped (row_age_group g) \<and> row_year g = y"
  by (auto simp: detail_hit_def)

lemma simple_entry:
  "lookup3 (age_groups (get_factor_data_simple db f ag sy ey)) a l y \<noteq> None \<longleftrightarrow>
     (l = ''Yes'' \<or> l = ''No'') \<and>
     (\<exists>ct cf. count_of (temp_data_of db f sy ey) (a, y) True = Some ct \<and>
        count_of (temp_data_of db f sy ey) (a, y) False = Some cf \<and> ct + cf \<noteq> 0)"
  by (auto simp: simple_age_groups percent_fold_lookup [OF temp_data_distinct] lookup3_empty
      count_of_def split: option.splits)

section \<open>The claims\<close>

text \<open>
  C1, as amended. \<^verbatim>\<open>AVG\<close> leaves \<^verbatim>\<open>NULL\<close> percentages out, it does not count them as
  zero. For a selected row \<open>r\<close> whose age group is kept, the entry
  \<^verbatim>\<open>age_groups[age_group][sub_group or 'Unknown'][year]\<close> is the arithmetic mean of the
  percentages that are not null among the selected rows with the key of \<open>r\<close>, and zero
  when all of them are null; this for a key whose label no other sub-group of the same
  year and age group shares (a null, an empty and an \<^verbatim>\<open>'Unknown'\<close> sub-group are written
  to the same entry).
\<close>

theorem detail_value_is_mean:
  assumes fields: "detail_fields factor_name = Some (ff, sf)"
    and sel: "r \<in> set (detail_selected db factor_name sy ey sg)"
    and ns: "\<not> skipped (age_group r)"
    and uniq: "\<forall>r'\<in>set (detail_selected db factor_name sy ey sg).
        year r' = year r \<and> age_group r' = age_group r \<and>
        sub_group_value (sf r') = sub_group_value (sf r) \<longrightarrow> sf r' = sf r"
  shows "lookup3 (age_groups (get_factor_data db factor_name ag sy ey sg))
           (the (age_group r)) (sub_group_value (sf r)) (year r) =
         Some (mean_or_zero (non_null (map percentage
           (filter (\<lambda>r'. year r' = year r \<and> age_group r' = age_group r \<and> sf r' = sf r)
              (detail_selected db factor_name sy ey sg)))))"
proof -
  let ?conds = "factor_conditions ff sf sy ey sg"
  let ?sel = "sql_where (sql_and ?conds) db"
  let ?rows = "factor_query db sf ?conds"
  let ?grp = "\<lambda>q. filter (\<lambda>r'. detail_key sf r' = detail_key sf q) ?sel"
  let ?row = "\<lambda>q. \<lparr>row_year = year q, row_age_group = age_group q, row_sub_group = sf q,
                  row_avg_percentage = sql_avg (map percentage (?grp q))\<rparr>"
  let ?a = "the (age_group r)" and ?s = "sub_group_value (sf r)" and ?y = "year r"
  let ?p = "mean_or_zero (non_null (map percentage (?grp r)))"
  have sel_eq: "detail_selected db factor_name sy ey sg = ?sel"
    by (simp add: detail_selected_def fields)
  have rows: "set ?rows = ?row ` set ?sel"
    by (rule set_factor_query)
  have r_in: "r \<in> set ?sel" using sel sel_eq by simp
  have hit: "\<exists>g\<in>set ?rows. detail_hit g ?a ?s ?y"
    unfolding rows using r_in ns by (auto simp: detail_hit_def)
  have same: "\<forall>g\<in>set ?rows. detail_hit g ?a ?s ?y \<longrightarrow>
      float_or_zero (row_avg_percentage g) = ?p"
  proof (intro ballI impI)
    fix g assume g: "g \<in> set ?rows" and h: "detail_hit g ?a ?s ?y"
    from g rows obtain q where q: "q \<in> set ?sel" and gq: "g = ?row q" by auto
    from q have "age_group q \<noteq> None" by (rule selected_age_group)
    moreover from r_in have "age_group r \<noteq> None" by (rule selected_age_group)
    moreover from h gq have "the (age_group q) = the (age_group r)"
      and yq: "year q = year r" and sq: "sub_group_value (sf q) = sub_group_value (sf r)"
      by (simp_all add: detail_hit_def)
    ultimately have aq: "age_group q = age_group r" by auto
    from uniq q sel_eq yq aq sq have "sf q = sf r" by simp
    with yq aq have "detail_key sf q = detail_key sf r" by (simp add: detail_key_def)
    then have "?grp q = ?grp r" by simp
    with gq show "float_or_zero (row_avg_percentage g) = ?p"
      by (simp add: float_or_zero_sql_avg)
  qed
  have "lookup3 (fst (fold detail_step ?rows (Map.empty, {}))) ?a ?s ?y = Some ?p"
    using hit same by (rule detail_fold_hit)
  moreover have "age_groups (get_factor_data db factor_name ag sy ey sg) =
      fst (fold detail_step ?rows (Map.empty, {}))"
    by (simp add: get_factor_data_def fields factor_trend_def Let_def)
  moreover have "?grp r =
      filter (\<lambda>r'. year r' = year r \<and> age_group r' = age_group r \<and> sf r' = sf r) ?sel"
    by (simp add: detail_key_def)
  ultimately show ?thesis by (simp add: sel_eq)
qed

text \<open>The example of the specification: percentages 5.0 and 7.0 under one key give 6.0.\<close>

theorem detail_value_is_mean_witness:
  "lookup3 (age_groups (get_factor_data mean_db ''diabetes'' None None None None))
     ''20-24'' ''Gestational diabetes'' 2022 = Some 6"
proof -
  let ?r = "example_row ''20-24'' 2022 True (Some ''Gestational diabetes'') None (Some 5)"
  have f: "detail_fields ''diabetes'' = Some (diabetes_pre, diabetes_subgroup)"
    by (simp add: detail_fields_def)
  have s: "?r \<in> set (detail_selected mean_db ''diabetes'' None None None)"
    by code_simp
  have n: "\<not> skipped (age_group ?r)"
    by code_simp
  have u: "\<forall>r'\<in>set (detail_selected mean_db ''diabetes'' None None None).
      year r' = year ?r \<and> age_group r' = age_group ?r \<and>
      sub_group_value (diabetes_subgroup r') = sub_group_value (diabetes_subgroup ?r) \<longrightarrow>
      diabetes_subgroup r' = diabetes_subgroup ?r"
    by code_simp
  have k: "year ?r = 2022" "age_group ?r = Some ''20-24''"
    "diabetes_subgroup ?r = Some ''Gestational diabetes''"
    "sub_group_value (Some ''Gestational diabetes'') = ''Gestational diabetes''"
    by code_simp+
  have v: "mean_or_zero (non_null (map percentage
      (filter (\<lambda>r'. year r' = 2022 \<and> age_group r' = Some ''20-24'' \<and>
                    diabetes_subgroup r' = Some ''Gestational diabetes'')
         (detail_selected mean_db ''diabetes'' None None None)))) = 6"
    by code_simp
  from detail_value_is_mean [OF f s n u, of None] show ?thesis
    by (simp add: k v)
qed

text \<open>
  The claim as it was written fails: with percentages 5.0 and \<^verbatim>\<open>NULL\<close> under one key the
  entry is 5.0, not the 2.5 that counting the null row as zero would give.
\<close>

theorem null_percentage_is_ignored:
  "lookup3 (age_groups (get_factor_data null_db ''diabetes'' None None None None))
     ''20-24'' ''Gestational diabetes'' 2022 = Some 5 \<and> (5 + 0) / 2 \<noteq> (5::real)"
  by code_simp

text \<open>
  C5. For a factor name other than \<^verbatim>\<open>diabetes\<close> and \<^verbatim>\<open>hypertension\<close> both views return
  the initial result, with \<^verbatim>\<open>years = []\<close> and \<^verbatim>\<open>age_groups = {}\<close>, whatever the other
  parameters and the table are; the functions are total, no error is raised.
\<close>

theorem unknown_factor_is_empty:
  "factor_name \<noteq> ''diabetes'' \<Longrightarrow> factor_name \<noteq> ''hypertension'' \<Longrightarrow>
   get_factor_data db factor_name ag sy ey sg =
     \<lparr>factor = factor_name, user_age_group = ag, years = [], age_groups = Map.empty\<rparr> \<and>
   get_factor_data_simple db factor_name ag sy ey =
     \<lparr>factor = factor_name, user_age_group = ag, years = [], age_groups = Map.empty\<rparr>"
  by (simp add: get_factor_data_def get_factor_data_simple_def detail_fields_def simple_field_def)

theorem unknown_factor_is_empty_witness:
  "years (get_factor_data mean_db ''smoking'' (Some ''20-24'') (Some 2023) (Some 2019)
      (Some [''Total''])) = [] \<and>
   age_groups (get_factor_data mean_db ''smoking'' (Some ''20-24'') (Some 2023) (Some 2019)
      (Some [''Total''])) = Map.empty \<and>
   years (get_factor_data_simple mean_db ''smoking'' (Some ''20-24'') (Some 2023)
      (Some 2019)) = [] \<and>
   age_groups (get_factor_data_simple mean_db ''smoking'' (Some ''20-24'') (Some 2023)
      (Some 2019)) = Map.empty"
  using unknown_factor_is_empty [of "''smoking''" mean_db "Some ''20-24''" "Some 2023" "Some 2019"
      "Some [''Total'']"]
  by simp

text \<open>
  C9. The \<^verbatim>\<open>age_group\<close> argument of the detailed view selects nothing: two calls that
  differ in it alone return the same \<^verbatim>\<open>years\<close> and \<^verbatim>\<open>age_groups\<close>, and the argument comes
  back as \<^verbatim>\<open>user_age_group\<close>.
\<close>

theorem age_group_hint_is_echoed:
  "years (get_factor_data db factor_name ag1 sy ey sg) =
     years (get_factor_data db factor_name ag2 sy ey sg) \<and>
   age_groups (get_factor_data db factor_name ag1 sy ey sg) =
     age_groups (get_factor_data db factor_name ag2 sy ey sg) \<and>
   user_age_group (get_factor_data db factor_name ag1 sy ey sg) = ag1"
  by (simp add: get_factor_data_def factor_trend_def Let_def split: option.splits)

text \<open>
  C3, as amended. Rows of the table that share the key \<^verbatim>\<open>(age_group, year, factor)\<close> are
  summed by the query (\<^verbatim>\<open>func.sum(Mother.total_mothers)\<close> under \<^verbatim>\<open>GROUP BY\<close>): for a
  selected row \<open>r\<close> whose age group is kept, the count \<^verbatim>\<open>temp_data[(age_group, year)][b]\<close>
  is the sum of the \<^verbatim>\<open>total_mothers\<close> that are not null over the selected rows with the
  age group and year of \<open>r\<close> and the factor value \<open>b\<close> (zero when there is none). The
  assignment in the loop would overwrite, but the grouped query returns one row for a
  key, so nothing is overwritten.
\<close>

theorem simple_count_is_sum:
  assumes field: "simple_field factor_name = Some ff"
    and sel: "r \<in> set (simple_selected db factor_name sy ey)"
    and ns: "\<not> skipped (age_group r)"
  shows "count_of (temp_data_of db factor_name sy ey) (the (age_group r), year r) b =
         Some (sum_list (non_null (map total_mothers
           (filter (\<lambda>r'. year r' = year r \<and> age_group r' = age_group r \<and> ff r' = Some b)
              (simple_selected db factor_name sy ey)))))"
proof -
  let ?conds = "simple_conditions factor_name ff sy ey"
  let ?sel = "sql_where (sql_and ?conds) db"
  let ?rows = "simple_query db ff ?conds"
  let ?grp = "\<lambda>k. filter (\<lambda>r'. simple_key ff r' = k) ?sel"
  let ?row = "\<lambda>q. \<lparr>srow_year = year q, srow_age_group = age_group q, has_factor = ff q,
                  sum_total_mothers = sql_sum (map total_mothers (?grp (simple_key ff q)))\<rparr>"
  let ?k = "(the (age_group r), year r)"
  let ?n = "sum_list (non_null (map total_mothers (?grp (year r, age_group r, Some b))))"
  let ?t = "fst (fold simple_step ?rows ([], {}))"
  have sel_eq: "simple_selected db factor_name sy ey = ?sel"
    by (simp add: simple_selected_def field)
  have t_eq: "temp_data_of db factor_name sy ey = ?t"
    by (simp add: temp_data_of_def field simple_first_pass_def)
  have rows: "set ?rows = ?row ` set ?sel"
    by (rule set_simple_query)
  have r_in: "r \<in> set ?sel" using sel sel_eq by simp
  have key_of_hit: "simple_key ff q = (year r, age_group r, Some b)"
    if q: "q \<in> set ?sel" and h: "simple_hit (?row q) ?k b" for q
  proof -
    from q have "age_group q \<noteq> None" "ff q \<noteq> None"
      using simple_selected_not_null by blast+
    moreover from r_in have "age_group r \<noteq> None"
      using simple_selected_not_null by blast
    moreover from h have "the (age_group q) = the (age_group r)" "year q = year r"
      "(ff q = Some True) = b"
      by (simp_all add: simple_hit_def)
    ultimately show ?thesis by (auto simp: simple_key_def)
  qed
  have "?row r \<in> set ?rows" using rows r_in by blast
  moreover have "\<not> skipped (srow_age_group (?row r))" using ns by simp
  ultimately have "?k \<in> fst ` set ?t"
    unfolding simple_fold_keys by force
  then have c: "count_of ?t ?k b = Some (counts_at ?t ?k b)"
    by (rule count_of_counts_at)
  have "counts_at ?t ?k b = ?n"
  proof (cases "\<exists>g\<in>set ?rows. simple_hit g ?k b")
    case True
    moreover have "\<forall>g\<in>set ?rows. simple_hit g ?k b \<longrightarrow> int_or_zero (sum_total_mothers g) = ?n"
    proof (intro ballI impI)
      fix g assume g: "g \<in> set ?rows" and h: "simple_hit g ?k b"
      from g rows obtain q where q: "q \<in> set ?sel" and gq: "g = ?row q" by auto
      from key_of_hit [OF q] h gq have "simple_key ff q = (year r, age_group r, Some b)" by simp
      with gq show "int_or_zero (sum_total_mothers g) = ?n"
        by (simp add: int_or_zero_sql_sum)
    qed
    ultimately show ?thesis by (rule simple_fold_hit)
  next
    case False
    then have "counts_at ?t ?k b = counts_at [] ?k b"
      by (simp add: simple_fold_miss)
    moreover have "?grp (year r, age_group r, Some b) = []"
    proof (rule ccontr)
      assume "?grp (year r, age_group r, Some b) \<noteq> []"
      then obtain q where q: "q \<in> set ?sel" and kq: "simple_key ff q = (year r, age_group r, Some b)"
        by (auto simp: filter_empty_conv)
      from kq ns have "simple_hit (?row q) ?k b"
        by (auto simp: simple_hit_def simple_key_def)
      moreover from q rows have "?row q \<in> set ?rows" by blast
      ultimately show False using False by blast
    qed
    ultimately show ?thesis by (simp add: counts_at_def non_null_Nil)
  qed
  moreover have "?grp (year r, age_group r, Some b) =
      filter (\<lambda>r'. year r' = year r \<and> age_group r' = age_group r \<and> ff r' = Some b) ?sel"
    by (simp add: simple_key_def)
  ultimately show ?thesis using c by (simp add: sel_eq t_eq)
qed

text \<open>Two rows with counts 30 and 20 under one key: the count kept is 50.\<close>

theorem simple_count_is_sum_witness:
  "count_of (temp_data_of dup_db ''diabetes'' None None) (''25-29'', 2023) True = Some 50"
proof -
  let ?r = "example_row ''25-29'' 2023 True (Some ''Gestational diabetes'') (Some 20) None"
  have f: "simple_field ''diabetes'' = Some diabetes_pre"
    by (simp add: simple_field_def)
  have s: "?r \<in> set (simple_selected dup_db ''diabetes'' None None)"
    by code_simp
  have n: "\<not> skipped (age_group ?r)"
    by code_simp
  have k: "year ?r = 2023" "age_group ?r = Some ''25-29''"
    by code_simp+
  have v: "sum_list (non_null (map total_mothers
      (filter (\<lambda>r'. year r' = 2023 \<and> age_group r' = Some ''25-29'' \<and> diabetes_pre r' = Some True)
         (simple_selected dup_db ''diabetes'' None None)))) = 50"
    by code_simp
  from simple_count_is_sum [OF f s n, of True] show ?thesis
    by (simp add: k v)
qed

text \<open>
  The claim as it was written fails: with counts 30 and 20 under the key
  \<^verbatim>\<open>('25-29', 2023, True)\<close> and 50 under \<^verbatim>\<open>('25-29', 2023, False)\<close> the count kept is the
  sum 50, not the last value 20, and Yes is 50 percent.
\<close>

theorem duplicate_counts_are_summed:
  "count_of (temp_data_of dup_db ''diabetes'' None None) (''25-29'', 2023) True = Some (30 + 20) \<and>
   lookup3 (age_groups (get_factor_data_simple dup_db ''diabetes'' None None None))
     ''25-29'' ''Yes'' 2023 = Some 50"
  by code_simp



text \<open>
  C6. No key of \<^verbatim>\<open>age_groups\<close>, in either view, lowers to \<^verbatim>\<open>total\<close> or to
  \<^verbatim>\<open>not stated\<close>: the loops skip the rows of such an age group before anything is
  written.
\<close>

theorem no_sentinel_age_group_key:
  "k \<in> dom (age_groups (get_factor_data db f ag sy ey sg)) \<or>
   k \<in> dom (age_groups (get_factor_data_simple db f ag sy ey)) \<Longrightarrow>
   lower k \<noteq> ''total'' \<and> lower k \<noteq> ''not stated''"
proof -
  assume "k \<in> dom (age_groups (get_factor_data db f ag sy ey sg)) \<or>
    k \<in> dom (age_groups (get_factor_data_simple db f ag sy ey))"
  with detail_dom_kept [of db f ag sy ey sg] simple_dom_kept [of db f ag sy ey]
  obtain a where "\<not> skipped a" "k = the a" by blast
  then show ?thesis using skipped_lower by blast
qed

theorem no_sentinel_age_group_key_witness:
  "''20-24'' \<in> dom (age_groups (get_factor_data sentinel_db ''diabetes'' None None None None)) \<and>
   ''Total'' \<notin> dom (age_groups (get_factor_data sentinel_db ''diabetes'' None None None None)) \<and>
   ''NOT STATED'' \<notin>
     dom (age_groups (get_factor_data_simple sentinel_db ''diabetes'' None None None))"
proof -
  have "lookup3 (age_groups (get_factor_data sentinel_db ''diabetes'' None None None None))
      ''20-24'' ''Unknown'' 2023 = Some 5"
    by code_simp
  then have a: "''20-24'' \<in>
      dom (age_groups (get_factor_data sentinel_db ''diabetes'' None None None None))"
    by (rule lookup3_dom)
  have l: "lower ''Total'' = ''total''" "lower ''NOT STATED'' = ''not stated''"
    by code_simp+
  from a l
    no_sentinel_age_group_key [of "''Total''" sentinel_db "''diabetes''" None None None None]
    no_sentinel_age_group_key [of "''NOT STATED''" sentinel_db "''diabetes''" None None None None]
  show ?thesis by blast
qed

text \<open>
  C7, as amended. In both views \<^verbatim>\<open>years\<close> is sorted in ascending order and has no
  duplicates. In the detailed view it is exactly the set of the years of the groups that
  pass the age-group test, which are the years that have an entry in \<^verbatim>\<open>age_groups\<close>. In
  the simple view it is exactly the set of the years of the groups that pass the age-group
  test, the years of the keys of \<^verbatim>\<open>temp_data\<close>; the years that have an entry in
  \<^verbatim>\<open>age_groups\<close> are those of the keys whose total is not zero, so every year with an
  entry is listed, and the year of a group left out for a total of zero is listed too.
\<close>

theorem years_of_kept_groups:
  "sorted (years (get_factor_data db f ag sy ey sg)) \<and>
   distinct (years (get_factor_data db f ag sy ey sg)) \<and>
   set (years (get_factor_data db f ag sy ey sg)) =
     row_year ` {g \<in> set (detail_groups db f sy ey sg). \<not> skipped (row_age_group g)} \<and>
   set (years (get_factor_data db f ag sy ey sg)) =
     {y. \<exists>a s. lookup3 (age_groups (get_factor_data db f ag sy ey sg)) a s y \<noteq> None} \<and>
   sorted (years (get_factor_data_simple db f ag sy ey)) \<and>
   distinct (years (get_factor_data_simple db f ag sy ey)) \<and>
   set (years (get_factor_data_simple db f ag sy ey)) =
     srow_year ` {g \<in> set (simple_groups db f sy ey). \<not> skipped (srow_age_group g)} \<and>
   set (years (get_factor_data_simple db f ag sy ey)) =
     snd ` fst ` set (temp_data_of db f sy ey) \<and>
   {y. \<exists>a l. lookup3 (age_groups (get_factor_data_simple db f ag sy ey)) a l y \<noteq> None} =
     {y. \<exists>a ct cf. count_of (temp_data_of db f sy ey) (a, y) True = Some ct \<and>
           count_of (temp_data_of db f sy ey) (a, y) False = Some cf \<and> ct + cf \<noteq> 0} \<and>
   {y. \<exists>a l. lookup3 (age_groups (get_factor_data_simple db f ag sy ey)) a l y \<noteq> None}
     \<subseteq> set (years (get_factor_data_simple db f ag sy ey))"
proof -
  let ?D = "get_factor_data db f ag sy ey sg" and ?S = "get_factor_data_simple db f ag sy ey"
  let ?T = "temp_data_of db f sy ey"
  have d: "years ?D = sorted_list_of_set (row_year ` {g \<in> set (detail_groups db f sy ey sg).
      \<not> skipped (row_age_group g)})"
    by (simp add: get_factor_data_def detail_groups_def factor_trend_def Let_def
        detail_fold_years split: option.splits)
  have s: "years ?S = sorted_list_of_set (srow_year ` {g \<in> set (simple_groups db f sy ey).
      \<not> skipped (srow_age_group g)})"
    by (simp add: get_factor_data_simple_def simple_groups_def simple_trend_def Let_def
        simple_first_pass_def simple_fold_years split: option.splits)
  have de: "(\<exists>a s. lookup3 (age_groups ?D) a s y \<noteq> None) \<longleftrightarrow>
      y \<in> row_year ` {g \<in> set (detail_groups db f sy ey sg). \<not> skipped (row_age_group g)}" for y
  proof -
    have ag: "age_groups ?D =
        fst (fold detail_step (detail_groups db f sy ey sg) (Map.empty, {}))"
      by (simp add: get_factor_data_def detail_groups_def factor_trend_def Let_def
          split: option.splits)
    have "lookup3 (age_groups ?D) a s y \<noteq> None \<longleftrightarrow>
        (\<exists>g\<in>set (detail_groups db f sy ey sg). detail_hit g a s y)" for a s
      unfolding ag detail_fold_entry by (simp add: lookup3_empty)
    then have "(\<exists>a s. lookup3 (age_groups ?D) a s y \<noteq> None) \<longleftrightarrow>
        (\<exists>g\<in>set (detail_groups db f sy ey sg). \<exists>a s. detail_hit g a s y)"
      by blast
    then show ?thesis by (auto simp: detail_hit_iff)
  qed
  have keys: "srow_year ` {g \<in> set (simple_groups db f sy ey). \<not> skipped (srow_age_group g)} =
      snd ` fst ` set ?T"
  proof (cases "simple_field f")
    case None
    then show ?thesis by (simp add: temp_data_of_def simple_groups_def)
  next
    case (Some ff)
    let ?rows = "simple_query db ff (simple_conditions f ff sy ey)"
    have "snd ` fst ` set (fst (fold simple_step ?rows ([], {}))) =
        srow_year ` {g \<in> set ?rows. \<not> skipped (srow_age_group g)}"
      by (simp add: simple_fold_keys image_image)
    with Some show ?thesis
      by (simp add: temp_data_of_def simple_groups_def simple_first_pass_def)
  qed
  have se: "{y. \<exists>a l. lookup3 (age_groups ?S) a l y \<noteq> None} =
      {y. \<exists>a ct cf. count_of ?T (a, y) True = Some ct \<and> count_of ?T (a, y) False = Some cf \<and>
         ct + cf \<noteq> 0}"
    unfolding simple_entry by blast
  have sub: "{y. \<exists>a ct cf. count_of ?T (a, y) True = Some ct \<and>
      count_of ?T (a, y) False = Some cf \<and> ct + cf \<noteq> 0} \<subseteq> snd ` fst ` set ?T"
  proof
    fix y assume "y \<in> {y. \<exists>a ct cf. count_of ?T (a, y) True = Some ct \<and>
      count_of ?T (a, y) False = Some cf \<and> ct + cf \<noteq> 0}"
    then obtain a c where "map_of ?T (a, y) = Some c"
      by (auto simp: count_of_def split: option.splits)
    then have "((a, y), c) \<in> set ?T" by (rule map_of_SomeD)
    then show "y \<in> snd ` fst ` set ?T" by force
  qed
  have fin: "finite (row_year ` {g \<in> set (detail_groups db f sy ey sg).
      \<not> skipped (row_age_group g)})"
    "finite (srow_year ` {g \<in> set (simple_groups db f sy ey). \<not> skipped (srow_age_group g)})"
    by simp_all
  have c1: "sorted (years ?D)" "distinct (years ?D)" "sorted (years ?S)" "distinct (years ?S)"
    by (simp_all add: d s)
  have c2: "set (years ?D) =
      row_year ` {g \<in> set (detail_groups db f sy ey sg). \<not> skipped (row_age_group g)}"
    unfolding d using fin(1) by (rule set_sorted_list_of_set)
  have c3: "set (years ?D) = {y. \<exists>a s. lookup3 (age_groups ?D) a s y \<noteq> None}"
    unfolding c2 using de by blast
  have c4: "set (years ?S) =
      srow_year ` {g \<in> set (simple_groups db f sy ey). \<not> skipped (srow_age_group g)}"
    unfolding s using fin(2) by (rule set_sorted_list_of_set)
  have c5: "set (years ?S) = snd ` fst ` set ?T"
    unfolding c4 by (rule keys)
  have c6: "{y. \<exists>a l. lookup3 (age_groups ?S) a l y \<noteq> None} \<subseteq> set (years ?S)"
    unfolding c5 se by (rule sub)
  from c1 c2 c3 c4 c5 se c6 show ?thesis
    by (intro conjI)
qed

theorem years_of_kept_groups_witness:
  "years (get_factor_data sentinel_db ''diabetes'' None None None None) = [2021, 2023] \<and>
   years (get_factor_data_simple zero_db ''diabetes'' None None None) = [2020, 2023] \<and>
   sorted (years (get_factor_data sentinel_db ''diabetes'' None None None None)) \<and>
   distinct (years (get_factor_data sentinel_db ''diabetes'' None None None None)) \<and>
   {y. \<exists>a s. lookup3 (age_groups (get_factor_data sentinel_db ''diabetes'' None None None None))
          a s y \<noteq> None} = {2021, 2023} \<and>
   snd ` fst ` set (temp_data_of zero_db ''diabetes'' None None) = {2020, 2023}"
proof -
  have d: "years (get_factor_data sentinel_db ''diabetes'' None None None None) = [2021, 2023]"
    by code_simp
  have s: "years (get_factor_data_simple zero_db ''diabetes'' None None None) = [2020, 2023]"
    by code_simp
  note D = years_of_kept_groups [of sentinel_db "''diabetes''" None None None None]
  note Z = years_of_kept_groups [of zero_db "''diabetes''" None None None None]
  have o1: "sorted (years (get_factor_data sentinel_db ''diabetes'' None None None None))"
    by (rule D [THEN conjunct1])
  have o2: "distinct (years (get_factor_data sentinel_db ''diabetes'' None None None None))"
    by (rule D [THEN conjunct2, THEN conjunct1])
  have "set (years (get_factor_data sentinel_db ''diabetes'' None None None None)) =
      {y. \<exists>a s. lookup3 (age_groups (get_factor_data sentinel_db ''diabetes'' None None None None))
          a s y \<noteq> None}"
    by (rule D [THEN conjunct2, THEN conjunct2, THEN conjunct2, THEN conjunct1])
  then have e: "{y. \<exists>a s. lookup3
      (age_groups (get_factor_data sentinel_db ''diabetes'' None None None None)) a s y \<noteq> None} =
      set [2021, 2023]"
    unfolding d by (rule sym)
  have "set (years (get_factor_data_simple zero_db ''diabetes'' None None None)) =
      snd ` fst ` set (temp_data_of zero_db ''diabetes'' None None)"
    by (rule Z [THEN conjunct2, THEN conjunct2, THEN conjunct2, THEN conjunct2, THEN conjunct2,
        THEN conjunct2, THEN conjunct2, THEN conjunct1])
  then have k: "snd ` fst ` set (temp_data_of zero_db ''diabetes'' None None) = set [2020, 2023]"
    unfolding s by (rule sym)
  have l: "set [2021, 2023] = {2021, 2023 :: int}" "set [2020, 2023] = {2020, 2023 :: int}"
    by simp_all
  show ?thesis
    using d s o1 o2 e [unfolded l] k [unfolded l] by (intro conjI)
qed

text \<open>
  The claim as it was written fails in the simple view: the only groups of 2020 have a
  total of zero and are left out of \<^verbatim>\<open>age_groups\<close>, and 2020 is listed in \<^verbatim>\<open>years\<close>.
\<close>

theorem zero_total_year_is_listed:
  "years (get_factor_data_simple zero_db ''diabetes'' None None None) = [2020, 2023] \<and>
   map (\<lambda>g. (srow_year g, srow_age_group g)) (simple_groups zero_db ''diabetes'' None None) =
     [(2019, Some ''Total''), (2020, Some ''30-34''), (2020, Some ''30-34''),
      (2023, Some ''25-29''), (2023, Some ''25-29'')] \<and>
   lookup3 (age_groups (get_factor_data_simple zero_db ''diabetes'' None None None))
     ''30-34'' ''Yes'' 2020 = None \<and>
   lookup3 (age_groups (get_factor_data_simple zero_db ''diabetes'' None None None))
     ''30-34'' ''No'' 2020 = None"
  by code_simp

text \<open>
  The year convention for bounds other than 0. With \<^verbatim>\<open>start_year = s\<close> and
  \<^verbatim>\<open>end_year = e\<close> the rows selected are exactly the rows selected without year bounds
  that have \<open>e \<le> year \<le> s\<close>; with \<^verbatim>\<open>start_year = s\<close> alone, those with \<open>year \<le> s\<close>; with
  \<^verbatim>\<open>end_year = e\<close> alone, those with \<open>e \<le> year\<close>; with neither, no year condition is
  built. A bound that is 0 is false as a Python value and is dropped.
\<close>

lemma year_range_convention:
  assumes "s \<noteq> 0" and "e \<noteq> 0"
  shows "detail_selected db f (Some s) (Some e) sg =
           filter (\<lambda>r. e \<le> year r \<and> year r \<le> s) (detail_selected db f None None sg) \<and>
         detail_selected db f (Some s) None sg =
           filter (\<lambda>r. year r \<le> s) (detail_selected db f None None sg) \<and>
         detail_selected db f None (Some e) sg =
           filter (\<lambda>r. e \<le> year r) (detail_selected db f None None sg) \<and>
         detail_selected db f (Some 0) ey sg = detail_selected db f None ey sg \<and>
         detail_selected db f sy (Some 0) sg = detail_selected db f sy None sg \<and>
         simple_selected db f (Some s) (Some e) =
           filter (\<lambda>r. e \<le> year r \<and> year r \<le> s) (simple_selected db f None None) \<and>
         simple_selected db f (Some s) None =
           filter (\<lambda>r. year r \<le> s) (simple_selected db f None None) \<and>
         simple_selected db f None (Some e) =
           filter (\<lambda>r. e \<le> year r) (simple_selected db f None None) \<and>
         simple_selected db f (Some 0) ey = simple_selected db f None ey \<and>
         simple_selected db f sy (Some 0) = simple_selected db f sy None \<and>
         year_conditions None None = []"
proof -
  have t: "truthy_int (Some s)" "truthy_int (Some e)" "\<not> truthy_int None" "\<not> truthy_int (Some 0)"
    using assms by (simp_all add: truthy_int_def)
  have c: "(\<lambda>r. year r \<le> s \<and> e \<le> year r) = (\<lambda>r. e \<le> year r \<and> year r \<le> s)"
    by auto
  have d: "detail_selected db f (Some s) (Some e) sg =
      filter (\<lambda>r. e \<le> year r \<and> year r \<le> s) (detail_selected db f None None sg)"
    "detail_selected db f (Some s) None sg =
      filter (\<lambda>r. year r \<le> s) (detail_selected db f None None sg)"
    "detail_selected db f None (Some e) sg =
      filter (\<lambda>r. e \<le> year r) (detail_selected db f None None sg)"
    by (simp_all add: detail_selected_years [of db f "Some s" "Some e"]
        detail_selected_years [of db f "Some s" None] detail_selected_years [of db f None "Some e"]
        t c)
  have d0: "detail_selected db f (Some 0) ey sg = detail_selected db f None ey sg"
    "detail_selected db f sy (Some 0) sg = detail_selected db f sy None sg"
    by (simp_all add: detail_selected_years [of db f "Some 0" ey]
        detail_selected_years [of db f None ey] detail_selected_years [of db f sy "Some 0"]
        detail_selected_years [of db f sy None] t)
  have p: "simple_selected db f (Some s) (Some e) =
      filter (\<lambda>r. e \<le> year r \<and> year r \<le> s) (simple_selected db f None None)"
    "simple_selected db f (Some s) None =
      filter (\<lambda>r. year r \<le> s) (simple_selected db f None None)"
    "simple_selected db f None (Some e) =
      filter (\<lambda>r. e \<le> year r) (simple_selected db f None None)"
    by (simp_all add: simple_selected_years [of db f "Some s" "Some e"]
        simple_selected_years [of db f "Some s" None] simple_selected_years [of db f None "Some e"]
        t c)
  have p0: "simple_selected db f (Some 0) ey = simple_selected db f None ey"
    "simple_selected db f sy (Some 0) = simple_selected db f sy None"
    by (simp_all add: simple_selected_years [of db f "Some 0" ey]
        simple_selected_years [of db f None ey] simple_selected_years [of db f sy "Some 0"]
        simple_selected_years [of db f sy None] t)
  have n: "year_conditions None None = []"
    by (simp add: year_conditions_def truthy_int_def)
  from d d0 p p0 n show ?thesis by simp
qed

text \<open>\<^verbatim>\<open>start_year=2023, end_year=2019\<close> keeps 2019 to 2023 and drops 2018 and 2024.\<close>

lemma year_range_example:
  "map year (detail_selected year_db ''diabetes'' (Some 2023) (Some 2019) None) =
     [2019, 2021, 2023] \<and>
   map year (simple_selected year_db ''diabetes'' (Some 2023) (Some 2019)) = [2019, 2021, 2023] \<and>
   map year (detail_selected year_db ''diabetes'' (Some 2021) None None) = [2018, 2019, 2021] \<and>
   map year (detail_selected year_db ''diabetes'' None (Some 2021) None) = [2021, 2023, 2024]"
proof -
  have "map year (filter (\<lambda>r. 2019 \<le> year r \<and> year r \<le> 2023)
      (detail_selected year_db ''diabetes'' None None None)) = [2019, 2021, 2023]"
    "map year (filter (\<lambda>r. 2019 \<le> year r \<and> year r \<le> 2023)
      (simple_selected year_db ''diabetes'' None None)) = [2019, 2021, 2023]"
    "map year (filter (\<lambda>r. year r \<le> 2021)
      (detail_selected year_db ''diabetes'' None None None)) = [2018, 2019, 2021]"
    "map year (filter (\<lambda>r. 2021 \<le> year r)
      (detail_selected year_db ''diabetes'' None None None)) = [2021, 2023, 2024]"
    by code_simp+
  then show ?thesis
    using year_range_convention [of 2023 2019 year_db "''diabetes''" None]
      year_range_convention [of 2021 2021 year_db "''diabetes''" None]
    by simp
qed

text \<open>
  C2. The claim: when both \<^verbatim>\<open>start_year\<close> and \<^verbatim>\<open>end_year\<close> are given, exactly the rows
  with \<open>end_year \<le> year \<le> start_year\<close> are selected, which the comment of the code says
  too. The code tests \<^verbatim>\<open>if start_year and end_year\<close>: with \<^verbatim>\<open>start_year=0\<close> and
  \<^verbatim>\<open>end_year=2019\<close> both are given, no row has \<open>2019 \<le> year \<le> 0\<close>, and yet both views
  return the rows from 2019 on.
\<close>

theorem zero_year_is_no_bound:
  "years (get_factor_data year_db ''diabetes'' None (Some 0) (Some 2019) None) =
     [2019, 2021, 2023, 2024] \<and>
   years (get_factor_data_simple year_db ''diabetes'' None (Some 0) (Some 2019)) =
     [2019, 2021, 2023, 2024] \<and>
   filter (\<lambda>r. 2019 \<le> year r \<and> year r \<le> 0) year_db = []"
  by code_simp

text \<open>
  C8. The simple view selects a row of the table exactly when its factor and its age
  group are not null, its year is in range and its sub-group is not the string
  \<^verbatim>\<open>Total\<close>: a row with a null sub-group, or with a sub-group that differs from
  \<^verbatim>\<open>Total\<close> in case, is selected.
\<close>

theorem only_literal_Total_is_excluded:
  "(r \<in> set (simple_selected db ''diabetes'' sy ey) \<longleftrightarrow>
      r \<in> set db \<and> diabetes_pre r \<noteq> None \<and> age_group r \<noteq> None \<and>
      diabetes_subgroup r \<noteq> Some ''Total'' \<and>
      sql_and (year_conditions sy ey) r = Some True) \<and>
   (r \<in> set (simple_selected db ''hypertension'' sy ey) \<longleftrightarrow>
      r \<in> set db \<and> hypertension_pre r \<noteq> None \<and> age_group r \<noteq> None \<and>
      hypertension_subgroup r \<noteq> Some ''Total'' \<and>
      sql_and (year_conditions sy ey) r = Some True)"
  by (auto simp: simple_selected_def simple_field_def simple_conditions_def set_sql_where
      sql_and_True simple_subgroup_condition isnot_None_def)

text \<open>
  A null sub-group (count 10) and \<^verbatim>\<open>total\<close> (count 5) are selected and counted,
  \<^verbatim>\<open>Total\<close> (count 100) is not: the true-count is 15.
\<close>

theorem only_literal_Total_is_excluded_witness:
  "example_row ''25-29'' 2023 True None (Some 10) None
     \<in> set (simple_selected subgroup_db ''diabetes'' None None) \<and>
   example_row ''25-29'' 2023 True (Some ''total'') (Some 5) None
     \<in> set (simple_selected subgroup_db ''diabetes'' None None) \<and>
   example_row ''25-29'' 2023 True (Some ''Total'') (Some 100) None
     \<notin> set (simple_selected subgroup_db ''diabetes'' None None) \<and>
   count_of (temp_data_of subgroup_db ''diabetes'' None None) (''25-29'', 2023) True = Some 15 \<and>
   lookup3 (age_groups (get_factor_data_simple subgroup_db ''diabetes'' None None None))
     ''25-29'' ''Yes'' 2023 = Some 15"
proof -
  let ?n = "example_row ''25-29'' 2023 True None (Some 10) None"
  let ?l = "example_row ''25-29'' 2023 True (Some ''total'') (Some 5) None"
  let ?t = "example_row ''25-29'' 2023 True (Some ''Total'') (Some 100) None"
  have n: "?n \<in> set subgroup_db" "diabetes_pre ?n \<noteq> None" "age_group ?n \<noteq> None"
    "diabetes_subgroup ?n \<noteq> Some ''Total''" "sql_and (year_conditions None None) ?n = Some True"
    by code_simp+
  have l: "?l \<in> set subgroup_db" "diabetes_pre ?l \<noteq> None" "age_group ?l \<noteq> None"
    "diabetes_subgroup ?l \<noteq> Some ''Total''" "sql_and (year_conditions None None) ?l = Some True"
    by code_simp+
  have t: "diabetes_subgroup ?t = Some ''Total''"
    by code_simp
  have c: "count_of (temp_data_of subgroup_db ''diabetes'' None None) (''25-29'', 2023) True =
      Some 15"
    "lookup3 (age_groups (get_factor_data_simple subgroup_db ''diabetes'' None None None))
      ''25-29'' ''Yes'' 2023 = Some 15"
    by code_simp+
  from only_literal_Total_is_excluded [of ?n subgroup_db None None] n
  have "?n \<in> set (simple_selected subgroup_db ''diabetes'' None None)" by blast
  moreover from only_literal_Total_is_excluded [of ?l subgroup_db None None] l
  have "?l \<in> set (simple_selected subgroup_db ''diabetes'' None None)" by blast
  moreover from only_literal_Total_is_excluded [of ?t subgroup_db None None] t
  have "?t \<notin> set (simple_selected subgroup_db ''diabetes'' None None)" by blast
  ultimately show ?thesis using c by blast
qed

text \<open>
  C10, as amended. In \<^verbatim>\<open>get_preparing_scenario_data\<close> a call with no profile attribute
  returns \<^verbatim>\<open>mothers\<close> equal to \<^verbatim>\<open>overall_average\<close>, the statistics of the rows of 2023.
  In \<^verbatim>\<open>get_comparison_data\<close> the baseline is the same, but with no profile attribute no
  filtered query is made and \<^verbatim>\<open>user_stats\<close> stays the empty dictionary. A snapshot that
  is computed over no row has \<^verbatim>\<open>total = 0\<close> and \<^verbatim>\<open>avg_percentage = 0.0\<close>.
\<close>

theorem snapshot_baseline:
  "mothers (get_preparing_scenario_data db None None None None None None) =
     overall_average (get_preparing_scenario_data db None None None None None None) \<and>
   overall_average (get_preparing_scenario_data db a s b d h l) =
     stats_dict (first (stats_query (sql_where (col_eq year_col 2023) db))) \<and>
   comparison_overall_average (get_comparison_data db ''preparing'' fl) =
     Some (stats_dict (first (stats_query (sql_where (col_eq year_col 2023) db)))) \<and>
   user_stats (get_comparison_data db ''preparing'' no_profile) = None \<and>
   (sql_where (col_eq year_col 2023) db = [] \<longrightarrow>
      overall_average (get_preparing_scenario_data db a s b d h l) =
        \<lparr>total = 0, avg_percentage = 0\<rparr> \<and>
      mothers (get_preparing_scenario_data db a s b d h l) =
        \<lparr>total = 0, avg_percentage = 0\<rparr> \<and>
      comparison_overall_average (get_comparison_data db ''preparing'' fl) =
        Some \<lparr>total = 0, avg_percentage = 0\<rparr>) \<and>
   (sql_where (sql_and (profile_filters a s b d h l)) (sql_where (col_eq year_col 2023) db) = []
      \<longrightarrow> mothers (get_preparing_scenario_data db a s b d h l) =
        \<lparr>total = 0, avg_percentage = 0\<rparr>) \<and>
   (profile_filters (p_age_group fl) (p_smoking fl) (p_bmi fl) (p_diabetes fl)
        (p_hypertension fl) (p_lhd fl) \<noteq> [] \<and>
    sql_where (sql_and (profile_filters (p_age_group fl) (p_smoking fl) (p_bmi fl)
        (p_diabetes fl) (p_hypertension fl) (p_lhd fl))) db = [] \<longrightarrow>
      user_stats (get_comparison_data db ''preparing'' fl) =
        Some \<lparr>total = 0, avg_percentage = 0\<rparr>)"
proof -
  have all: "sql_where (sql_and []) rows = rows" for rows :: "mother list"
    by (simp add: sql_where_def sql_and_Nil)
  have e: "sql_where c [] = []" for c :: "mother cond"
    by (simp add: sql_where_def)
  show ?thesis
    by (auto simp: get_preparing_scenario_data_def get_comparison_data_def Let_def
        profile_filters_None no_profile_def stats_dict_empty all e)
qed

theorem snapshot_baseline_witness:
  "mothers (get_preparing_scenario_data snapshot_db None None None None None None) =
     \<lparr>total = 2, avg_percentage = 6\<rparr> \<and>
   overall_average (get_preparing_scenario_data snapshot_db None None None None None None) =
     \<lparr>total = 2, avg_percentage = 6\<rparr> \<and>
   mothers (get_preparing_scenario_data old_db (Some ''25-29'') None None None None None) =
     \<lparr>total = 0, avg_percentage = 0\<rparr>"
proof -
  have o: "overall_average
      (get_preparing_scenario_data snapshot_db None None None None None None) =
      \<lparr>total = 2, avg_percentage = 6\<rparr>"
    by code_simp
  have n: "sql_where (col_eq year_col 2023) old_db = []"
    by code_simp
  from snapshot_baseline [of snapshot_db None None None None None None no_profile]
    snapshot_baseline [of old_db "Some ''25-29''" None None None None None no_profile] o n
  show ?thesis by simp
qed

text \<open>
  The claim as it was written fails for \<^verbatim>\<open>get_comparison_data\<close>: with no profile
  attribute \<^verbatim>\<open>user_stats\<close> is empty while the baseline counts two rows.
\<close>

theorem comparison_without_filters_has_no_user_stats:
  "user_stats (get_comparison_data snapshot_db ''preparing'' no_profile) = None \<and>
   comparison_overall_average (get_comparison_data snapshot_db ''preparing'' no_profile) =
     Some \<lparr>total = 2, avg_percentage = 6\<rparr>"
  by code_simp

end
